theory Spec2Isabelle
  imports Main "HOL-Library.Word" "HOL-Library.Sublist" "HOL-Library.AList"
begin

unbundle bit_operations_syntax

section \<open>Shared data: Python values used by both modules\<close>

text \<open>
  Exception messages of the rail back ends are Korean text. A Python \<open>str\<close> is a
  sequence of Unicode code points, so such messages are lists of code points; the test
  \<open>needle in msg\<close> is the contiguous-sublist test on them.
\<close>

type_synonym ustr = "nat list"

fun contains :: "ustr \<Rightarrow> ustr \<Rightarrow> bool" where
  "contains needle [] = (needle = [])"
| "contains needle (c # cs) = (prefix needle (c # cs) \<or> contains needle cs)"

text \<open>
  The exception classes the polling loop of \<open>reserve\<close> distinguishes, in the order of
  its \<open>except\<close> clauses. \<open>SRTError\<close> carries \<open>ex.msg\<close>, \<open>KorailError\<close> carries
  \<open>str(ex)\<close>; every other exception class is \<open>OtherException\<close> with its class name.
\<close>

datatype exn =
    SRTError ustr
  | KorailError ustr
  | JSONDecodeError
  | ConnectionError
  | OtherException string

section \<open>srtgo.py: the seat predicate\<close>

text \<open>
  Modelled from the spec: the train classes of \<open>srt.py\<close> and \<open>ktx.py\<close> are not among
  the sources. A candidate exposes availability by class (general, special) and
  waiting-list capacity; "a seat in any class" is general or special.
\<close>

record train =
  general :: bool
  special :: bool
  waitingList :: bool

definition seat_available :: "train \<Rightarrow> bool" where
  "seat_available t = (general t \<or> special t)"

definition general_seat_available :: "train \<Rightarrow> bool" where
  "general_seat_available t = general t"

definition special_seat_available :: "train \<Rightarrow> bool" where
  "special_seat_available t = special t"

definition reserve_standby_available :: "train \<Rightarrow> bool" where
  "reserve_standby_available t = waitingList t"

definition has_seat :: "train \<Rightarrow> bool" where
  "has_seat t = (general t \<or> special t)"

definition has_general_seat :: "train \<Rightarrow> bool" where
  "has_general_seat t = general t"

definition has_special_seat :: "train \<Rightarrow> bool" where
  "has_special_seat t = special t"

definition has_waiting_list :: "train \<Rightarrow> bool" where
  "has_waiting_list t = waitingList t"

text \<open>
  A candidate is an SRT train or a Korail train; the two classes have different method
  names, so calling the methods of one on the other raises \<open>AttributeError\<close>.
  \<open>SeatType\<close> (SRT) and \<open>ReserveOption\<close> (Korail) are different enumerations with the
  same four member names; a member of one never equals a member of the other.
\<close>

datatype candidate = SRTTrain train | KTXTrain train

datatype preference = GENERAL_FIRST | GENERAL_ONLY | SPECIAL_FIRST | SPECIAL_ONLY

datatype seat_type = SeatType preference | ReserveOption preference

fun is_seat_available :: "candidate \<Rightarrow> seat_type \<Rightarrow> string \<Rightarrow> exn + bool" where
  "is_seat_available (SRTTrain t) st rail_type =
     (if rail_type = ''SRT'' then
        (if \<not> seat_available t then Inr (reserve_standby_available t)
         else if st \<in> set [SeatType GENERAL_FIRST, SeatType SPECIAL_FIRST]
           then Inr (seat_available t)
         else if st = SeatType GENERAL_ONLY then Inr (general_seat_available t)
         else Inr (special_seat_available t))
      else Inl (OtherException ''AttributeError''))"
| "is_seat_available (KTXTrain t) st rail_type =
     (if rail_type = ''SRT'' then Inl (OtherException ''AttributeError'')
      else
        (if \<not> has_seat t then Inr (has_waiting_list t)
         else if st \<in> set [ReserveOption GENERAL_FIRST, ReserveOption SPECIAL_FIRST]
           then Inr (has_seat t)
         else if st = ReserveOption GENERAL_ONLY then Inr (has_general_seat t)
         else Inr (has_special_seat t)))"

text \<open>
  The decision table of the specification, in its own words and row order: the two
  rows for "no seat in any class" come first and apply to every preference; the
  remaining rows apply when some class has a seat.
\<close>

definition satisfies :: "train \<Rightarrow> preference \<Rightarrow> bool" where
  "satisfies t p =
     (if \<not> general t \<and> \<not> special t \<and> \<not> waitingList t then False
      else if \<not> general t \<and> \<not> special t \<and> waitingList t then True
      else (case p of
              GENERAL_FIRST \<Rightarrow> general t \<or> special t
            | SPECIAL_FIRST \<Rightarrow> general t \<or> special t
            | GENERAL_ONLY \<Rightarrow> general t
            | SPECIAL_ONLY \<Rightarrow> special t))"

section \<open>srtgo.py: the reservation run\<close>

text \<open>
  The message fragments the polling loop looks for, as code points: abnormal access
  ("please use the normal route"), login required, no seats left, back end busy,
  standby registration closed, standby limit reached, and Korail's \<open>Sold out\<close>.
\<close>

definition msg_abnormal_access :: ustr where
  "msg_abnormal_access =
     [51221, 49345, 51201, 51064, 32, 44221, 47196, 47196, 32, 51217, 44540, 32,
      48512, 53441, 46300, 47549, 45768, 45796]"

definition msg_login_required :: ustr where
  "msg_login_required =
     [47196, 44536, 51064, 32, 54980, 32, 49324, 50857, 54616, 49901, 49884, 50724]"

definition msg_no_seats :: ustr where
  "msg_no_seats = [51092, 50668, 49437, 50630, 51020]"

definition msg_busy :: ustr where
  "msg_busy =
     [49324, 50857, 51088, 44032, 32, 47566, 50500, 32, 51217, 49549, 51060, 32,
      50896, 54876, 54616, 51648, 32, 50506, 49845, 45768, 45796]"

definition msg_standby_closed :: ustr where
  "msg_standby_closed =
     [50696, 50557, 45824, 44592, 32, 51217, 49688, 44032, 32, 47560, 44048, 46104,
      50632, 49845, 45768, 45796]"

definition msg_standby_full :: ustr where
  "msg_standby_full = [50696, 50557, 45824, 44592, 51088, 54620, 46020, 49688, 52488, 44284]"

definition msg_sold_out :: ustr where
  "msg_sold_out = [83, 111, 108, 100, 32, 111, 117, 116]"

text \<open>
  What the run does to its collaborators, in order: calls of the rail client
  (\<open>Login\<close>, \<open>Search\<close>, \<open>Clear\<close>, \<open>Reserve i\<close> for the candidate at position
  \<open>i\<close>, \<open>Committed i\<close> when that call returned a reservation, \<open>Pay\<close>), the
  back-off sleep, the values written back as next defaults, the error printed for the
  user, the two Telegram sends and the question whether to continue with its answer.
\<close>

datatype event =
    Login
  | SaveDefaults
  | Search
  | Clear
  | Sleep
  | Reserve nat
  | Committed nat
  | Pay
  | SendTicket
  | ShowError exn
  | SendError exn
  | Confirm bool

text \<open>
  The collaborators are outside the program; what they answer during one iteration of
  the loop is given: the search result, whether \<open>rail.reserve\<close> raises, the
  reservation's \<open>is_waiting\<close> attribute (if it has one), what \<open>pay_card\<close> does,
  whether the send after a reservation and the send in \<open>_handle_error\<close> raise, the
  user's answer, and whether \<open>login\<close> raises or else whether the client it returns is
  logged in.
\<close>

record cycle =
  on_search :: "exn + candidate list"
  on_reserve :: "exn option"
  on_is_waiting :: "bool option"
  on_pay :: "exn + bool"
  on_send :: "exn option"
  on_error_send :: "exn option"
  on_confirm :: bool
  on_login :: "exn + bool"

text \<open>What is fixed before the loop starts.\<close>

record run =
  rail_type :: string
  choice :: "nat list"
  seat :: seat_type
  want_pay :: bool

text \<open>
  \<open>_handle_error\<close>: print, send, ask. An exception of the send leaves the function
  before the question is asked.
\<close>

definition handle_error :: "cycle \<Rightarrow> exn \<Rightarrow> event list \<times> (exn + bool)" where
  "handle_error c ex =
     (case on_error_send c of
        Some e \<Rightarrow> ([ShowError ex, SendError ex], Inl e)
      | None \<Rightarrow> ([ShowError ex, SendError ex, Confirm (on_confirm c)], Inr (on_confirm c)))"

text \<open>
  \<open>_reserve\<close>: reserve, print, pay when asked to and the reservation is not a
  standby one, send. The result is the exception that leaves the function, if any.
\<close>

definition reserve_train :: "run \<Rightarrow> cycle \<Rightarrow> nat \<Rightarrow> event list \<times> exn option" where
  "reserve_train r c i =
     (case on_reserve c of
        Some e \<Rightarrow> ([Reserve i], Some e)
      | None \<Rightarrow>
          (if want_pay r \<and> on_is_waiting c = Some False then
             (case on_pay c of
                Inl e \<Rightarrow> ([Reserve i, Committed i, Pay], Some e)
              | Inr paid \<Rightarrow> ([Reserve i, Committed i, Pay, SendTicket], on_send c))
           else ([Reserve i, Committed i, SendTicket], on_send c)))"

text \<open>
  The \<open>try\<close> block ends in one of three ways: the function returns after
  \<open>_reserve\<close>, the \<open>for\<close> loop finds nothing and the block sleeps, or an exception
  is raised. \<open>trains[i]\<close> raises \<open>IndexError\<close> when the fresh result is shorter than
  the position selected.
\<close>

datatype attempt_result = Returned | NoMatch | Raised exn

fun try_candidates ::
  "run \<Rightarrow> cycle \<Rightarrow> candidate list \<Rightarrow> nat list \<Rightarrow> event list \<times> attempt_result"
where
  "try_candidates r c trains [] = ([], NoMatch)"
| "try_candidates r c trains (i # rest) =
     (if length trains \<le> i then ([], Raised (OtherException ''IndexError''))
      else
        (case is_seat_available (trains ! i) (seat r) (rail_type r) of
           Inl e \<Rightarrow> ([], Raised e)
         | Inr available \<Rightarrow>
             if available then
               (case reserve_train r c i of
                  (evs, None) \<Rightarrow> (evs, Returned)
                | (evs, Some e) \<Rightarrow> (evs, Raised e))
             else try_candidates r c trains rest))"

definition attempt :: "run \<Rightarrow> cycle \<Rightarrow> event list \<times> attempt_result" where
  "attempt r c =
     (case on_search c of
        Inl e \<Rightarrow> ([Search], Raised e)
      | Inr trains \<Rightarrow>
          (case try_candidates r c trains (choice r) of
             (evs, NoMatch) \<Rightarrow> (Search # evs @ [Sleep], NoMatch)
           | (evs, res) \<Rightarrow> (Search # evs, res)))"

text \<open>
  The \<open>except\<close> clauses. A handler lets the loop continue, returns from the function,
  or is left by an exception of its own (raised by \<open>login\<close> or by the send in
  \<open>_handle_error\<close>), which nothing in \<open>reserve\<close> catches.
\<close>

datatype verdict = Continue | Stop | Crash exn

definition ask_to_continue ::
  "cycle \<Rightarrow> exn \<Rightarrow> event list \<Rightarrow> (event list \<times> verdict) \<Rightarrow> event list \<times> verdict"
where
  "ask_to_continue c ex done_so_far then_do =
     (case handle_error c ex of
        (evs, Inl e) \<Rightarrow> (done_so_far @ evs, Crash e)
      | (evs, Inr ok) \<Rightarrow>
          if \<not> ok then (done_so_far @ evs, Stop)
          else (done_so_far @ evs @ fst then_do, snd then_do))"

definition relogin :: "cycle \<Rightarrow> event list \<times> verdict" where
  "relogin c = (case on_login c of Inl e \<Rightarrow> ([Login], Crash e) | Inr ok \<Rightarrow> ([Login], Continue))"

fun on_exception :: "cycle \<Rightarrow> exn \<Rightarrow> event list \<times> verdict" where
  "on_exception c (SRTError msg) =
     (if contains msg_abnormal_access msg then ([Clear, Sleep], Continue)
      else if contains msg_login_required msg then
        (case on_login c of
           Inl e \<Rightarrow> ([Login], Crash e)
         | Inr is_login \<Rightarrow>
             if \<not> is_login then ask_to_continue c (SRTError msg) [Login] ([Sleep], Continue)
             else ([Login, Sleep], Continue))
      else if \<not> (\<exists>err \<in> set [msg_no_seats, msg_busy, msg_standby_closed, msg_standby_full].
                   contains err msg)
        then ask_to_continue c (SRTError msg) [] ([Sleep], Continue)
      else ([Sleep], Continue))"
| "on_exception c (KorailError text) =
     (if \<not> (\<exists>m \<in> set [msg_sold_out, msg_no_seats, msg_standby_full]. contains m text)
        then ask_to_continue c (KorailError text) [] ([Sleep], Continue)
      else ([Sleep], Continue))"
| "on_exception c JSONDecodeError =
     (case on_login c of Inl e \<Rightarrow> ([Sleep, Login], Crash e) | Inr ok \<Rightarrow> ([Sleep, Login], Continue))"
| "on_exception c ConnectionError = ask_to_continue c ConnectionError [] (relogin c)"
| "on_exception c (OtherException name) = ask_to_continue c (OtherException name) [] (relogin c)"

text \<open>
  The \<open>while True\<close> loop. Each iteration uses up the answers of one cycle; the loop
  itself has no bound, so a run whose cycles are used up while it is still polling
  ends here as \<open>Polling\<close>.
\<close>

datatype outcome = Success | Aborted | Crashed exn | Polling

fun poll :: "run \<Rightarrow> cycle list \<Rightarrow> event list \<times> outcome" where
  "poll r [] = ([], Polling)"
| "poll r (c # cs) =
     (case attempt r c of
        (evs, Returned) \<Rightarrow> (evs, Success)
      | (evs, NoMatch) \<Rightarrow> (evs @ fst (poll r cs), snd (poll r cs))
      | (evs, Raised ex) \<Rightarrow>
          (case on_exception c ex of
             (hevs, Continue) \<Rightarrow> (evs @ hevs @ fst (poll r cs), snd (poll r cs))
           | (hevs, Stop) \<Rightarrow> (evs @ hevs, Aborted)
           | (hevs, Crash e) \<Rightarrow> (evs @ hevs, Crashed e)))"

text \<open>
  The answers to the questions asked before the loop. The counts of the passenger
  kinds other than adults are present only for the kinds enabled in the options.
\<close>

record answers =
  departure :: string
  arrival :: string
  adult :: int
  child :: "int option"
  senior :: "int option"
  disability1to3 :: "int option"
  disability4to6 :: "int option"

text \<open>The passenger objects and \<open>total_count\<close>.\<close>

fun add_passengers ::
  "(string \<times> int option) list \<Rightarrow> (string \<times> int) list \<times> int \<Rightarrow> (string \<times> int) list \<times> int"
where
  "add_passengers [] acc = acc"
| "add_passengers ((k, None) # rest) acc = add_passengers rest acc"
| "add_passengers ((k, Some n) # rest) (passengers, total_count) =
     (if n > 0 then add_passengers rest (passengers @ [(k, n)], total_count + n)
      else add_passengers rest (passengers, total_count))"

definition count_passengers :: "answers \<Rightarrow> (string \<times> int) list \<times> int" where
  "count_passengers info =
     add_passengers
       [(''child'', child info), (''senior'', senior info),
        (''disability1to3'', disability1to3 info), (''disability4to6'', disability4to6 info)]
       (if adult info > 0 then ([(''adult'', adult info)], adult info) else ([], 0))"

text \<open>
  One call of \<open>reserve\<close>: the first login, the answers (\<open>None\<close> when the user
  cancels a prompt), the first search, the trains selected, seat type and payment
  wish, and the cycles of the loop.
\<close>

record session =
  session_rail_type :: string
  first_login :: "exn + bool"
  info :: "answers option"
  first_search :: "exn + candidate list"
  selected :: "nat list option"
  options_ans :: "(seat_type \<times> bool) option"
  cycles :: "cycle list"

definition reserve :: "session \<Rightarrow> event list \<times> outcome" where
  "reserve s =
     (case first_login s of
        Inl e \<Rightarrow> ([Login], Crashed e)
      | Inr ok \<Rightarrow>
          (case info s of
             None \<Rightarrow> ([Login], Aborted)
           | Some i \<Rightarrow>
               if departure i = arrival i then ([Login], Aborted)
               else if snd (count_passengers i) = 0 then ([Login, SaveDefaults], Aborted)
               else if snd (count_passengers i) \<ge> 10 then ([Login, SaveDefaults], Aborted)
               else
                 (case first_search s of
                    Inl e \<Rightarrow> ([Login, SaveDefaults, Search], Crashed e)
                  | Inr trains \<Rightarrow>
                      if trains = [] then ([Login, SaveDefaults, Search], Aborted)
                      else
                        (case selected s of
                           None \<Rightarrow> ([Login, SaveDefaults, Search], Aborted)
                         | Some sel \<Rightarrow>
                             if sel = [] then ([Login, SaveDefaults, Search], Aborted)
                             else
                               (case options_ans s of
                                  None \<Rightarrow> ([Login, SaveDefaults, Search], Aborted)
                                | Some (st, pay) \<Rightarrow>
                                    (let r = \<lparr>rail_type = session_rail_type s, choice = sel,
                                              seat = st, want_pay = pay\<rparr>;
                                         (evs, out) = poll r (cycles s)
                                     in ([Login, SaveDefaults, Search] @ evs, out)))))))"



text \<open>The total of the passenger counts entered; a kind that was not asked counts 0.\<close>

definition entered :: "int option \<Rightarrow> int" where
  "entered n = (case n of None \<Rightarrow> 0 | Some k \<Rightarrow> k)"

definition total_entered :: "answers \<Rightarrow> int" where
  "total_entered i =
     adult i + entered (child i) + entered (senior i) + entered (disability1to3 i)
     + entered (disability4to6 i)"

definition counts_from_menu :: "answers \<Rightarrow> bool" where
  "counts_from_menu i =
     (0 \<le> adult i \<and> 0 \<le> entered (child i) \<and> 0 \<le> entered (senior i)
      \<and> 0 \<le> entered (disability1to3 i) \<and> 0 \<le> entered (disability4to6 i))"

text \<open>
  Example data: an SRT run on the first train of the result with "general first" and
  no card payment; a train with a free general seat and a sold-out train without
  waiting list; a cycle in which the train is sold out and every collaborator
  answers without raising; answers to the prompts; a failure of the Telegram client
  and an \<open>SRTError\<close> with a message the loop does not know.
\<close>

definition demo_run :: run where
  "demo_run = \<lparr>rail_type = ''SRT'', choice = [0], seat = SeatType GENERAL_FIRST, want_pay = False\<rparr>"

definition seat_free :: candidate where
  "seat_free = SRTTrain \<lparr>general = True, special = False, waitingList = False\<rparr>"

definition sold_out :: candidate where
  "sold_out = SRTTrain \<lparr>general = False, special = False, waitingList = False\<rparr>"

definition quiet :: cycle where
  "quiet = \<lparr>on_search = Inr [sold_out], on_reserve = None, on_is_waiting = Some False,
            on_pay = Inr True, on_send = None, on_error_send = None, on_confirm = True,
            on_login = Inr True\<rparr>"

definition network_error :: exn where
  "network_error = OtherException ''NetworkError''"

definition unknown_error :: exn where
  "unknown_error = SRTError [117, 110, 107, 110, 111, 119, 110]"

definition demo_answers :: answers where
  "demo_answers = \<lparr>departure = ''Suseo'', arrival = ''Busan'', adult = 1, child = Some 0,
                   senior = None, disability1to3 = None, disability4to6 = None\<rparr>"

definition demo_session :: session where
  "demo_session = \<lparr>session_rail_type = ''SRT'', first_login = Inr True, info = Some demo_answers,
                   first_search = Inr [sold_out], selected = Some [0],
                   options_ans = Some (SeatType GENERAL_FIRST, False),
                   cycles = [quiet, quiet\<lparr>on_search := Inr [seat_free]\<rparr>]\<rparr>"

section \<open>secure_storage.py: the encrypted configuration store\<close>

type_synonym byte = "8 word"
type_synonym bytes = "byte list"

text \<open>
  \<open>self.config\<close> is a Python dict of dicts of strings,
  \<open>{service: {key: value}}\<close>. A dict keeps insertion order and \<open>json.dumps\<close>
  writes in that order, so it is an association list: assigning to a present key
  replaces the value in place, assigning to an absent key appends, \<open>del\<close> removes.
\<close>

type_synonym section_cfg = "(string \<times> string) list"
type_synonym config = "(string \<times> section_cfg) list"

definition DEFAULT_CONFIG :: config where
  "DEFAULT_CONFIG = []"

text \<open>
  The library functions the module calls (hashlib, Crypto.Cipher.AES, json, the codec
  of \<open>str\<close>/\<open>bytes\<close>) are parameters of the model. AES in GCM mode encrypts by
  XOR with a key stream determined by key and nonce; \<open>gcm_keystream k n i\<close> is its
  \<open>i\<close>-th byte. \<open>bytes_decode\<close> and \<open>json_loads\<close> return \<open>None\<close> where the
  Python raises.
\<close>

record lib =
  pbkdf2_hmac :: "string \<Rightarrow> bytes \<Rightarrow> bytes \<Rightarrow> nat \<Rightarrow> bytes"
  sha256_hexdigest :: "bytes \<Rightarrow> string"
  gcm_keystream :: "bytes \<Rightarrow> bytes \<Rightarrow> nat \<Rightarrow> byte"
  str_encode :: "string \<Rightarrow> bytes"
  bytes_decode :: "bytes \<Rightarrow> string option"
  json_dumps :: "config \<Rightarrow> string"
  json_loads :: "string \<Rightarrow> config option"

text \<open>The two files under \<open>~/.srtgo\<close>; \<open>None\<close> is an absent file.\<close>

record files =
  CONFIG_FILE :: "bytes option"
  KEY_FILE :: "string option"

text \<open>
  An instance of \<open>SecureStorage\<close>. \<open>last_password\<close> is the attribute
  \<open>_last_password\<close>, absent (\<open>None\<close>) until a password has been accepted.
\<close>

record storage =
  master_password :: "string option"
  encryption_key :: "bytes option"
  config :: config
  last_password :: "string option"

text \<open>Python truth of an optional string or byte string: \<open>None\<close> and the empty one are false.\<close>

fun truthy :: "'a list option \<Rightarrow> bool" where
  "truthy None = False"
| "truthy (Some xs) = (xs \<noteq> [])"

definition is_initialized :: "files \<Rightarrow> bool" where
  "is_initialized fs = (CONFIG_FILE fs \<noteq> None \<and> KEY_FILE fs \<noteq> None)"

definition salt :: bytes where
  "salt = map (\<lambda>c. of_nat (of_char c)) ''srtgo-salt''"

definition derive_key :: "lib \<Rightarrow> string option \<Rightarrow> bytes option" where
  "derive_key L password =
     (if \<not> truthy password then None
      else Some (pbkdf2_hmac L ''sha256'' (str_encode L (the password)) salt 100000))"

definition setup_encryption_key :: "lib \<Rightarrow> storage \<Rightarrow> string \<Rightarrow> storage" where
  "setup_encryption_key L s password = s\<lparr>encryption_key := derive_key L (Some password)\<rparr>"

definition save_key_hash :: "lib \<Rightarrow> files \<Rightarrow> storage \<Rightarrow> files \<times> bool" where
  "save_key_hash L fs s =
     (if \<not> truthy (encryption_key s) then (fs, False)
      else (fs\<lparr>KEY_FILE := Some (sha256_hexdigest L (the (encryption_key s)))\<rparr>, True))"

text \<open>
  \<open>str.strip()\<close>: white space is removed at both ends (the ASCII white-space
  characters and the separators 28 to 31; a hex digest holds none of them).
\<close>

definition is_space :: "char \<Rightarrow> bool" where
  "is_space c = (c = CHR '' '' \<or> (9 \<le> (of_char c :: nat) \<and> (of_char c :: nat) \<le> 13)
                 \<or> (28 \<le> (of_char c :: nat) \<and> (of_char c :: nat) \<le> 31))"

definition strip :: "string \<Rightarrow> string" where
  "strip s = rev (dropWhile is_space (rev (dropWhile is_space s)))"

definition verify_key :: "lib \<Rightarrow> files \<Rightarrow> storage \<Rightarrow> bool" where
  "verify_key L fs s =
     (if \<not> truthy (encryption_key s) then False
      else (case KEY_FILE fs of
              None \<Rightarrow> False
            | Some content \<Rightarrow>
                strip content = sha256_hexdigest L (the (encryption_key s))))"

text \<open>
  \<open>getpass.getpass\<close> reads the next line the user types; the lines are a list, and
  reading past its end is the \<open>EOFError\<close> of a closed input.
\<close>

definition EOFError :: exn where
  "EOFError = OtherException ''EOFError''"

text \<open>
  The \<open>for _ in range(3)\<close> loop of \<open>_try_load_key\<close>, with the number of attempts
  left. An empty line uses up an attempt. When the attempts are used up the
  configuration is reset and the key derived from the last line typed stays set.
\<close>

fun ask_password ::
  "lib \<Rightarrow> files \<Rightarrow> nat \<Rightarrow> storage \<Rightarrow> string list \<Rightarrow> exn + (storage \<times> bool \<times> string list)"
where
  "ask_password L fs 0 s inp = Inr (s\<lparr>config := DEFAULT_CONFIG\<rparr>, False, inp)"
| "ask_password L fs (Suc n) s [] = Inl EOFError"
| "ask_password L fs (Suc n) s (password # inp) =
     (if \<not> truthy (Some password) then ask_password L fs n s inp
      else
        (let s1 = setup_encryption_key L s password in
         if verify_key L fs s1 then Inr (s1\<lparr>last_password := Some password\<rparr>, True, inp)
         else ask_password L fs n s1 inp))"

definition try_load_key ::
  "lib \<Rightarrow> files \<Rightarrow> storage \<Rightarrow> string list \<Rightarrow> exn + (storage \<times> bool \<times> string list)"
where
  "try_load_key L fs s inp =
     (if KEY_FILE fs = None then Inr (s, False, inp)
      else
        (let s1 = (if truthy (last_password s)
                   then setup_encryption_key L s (the (last_password s)) else s)
         in if truthy (last_password s) \<and> verify_key L fs s1 then Inr (s1, True, inp)
            else ask_password L fs 3 s1 inp))"

text \<open>The \<open>while not password\<close> loop of \<open>_initial_setup\<close>.\<close>

fun read_password :: "string list \<Rightarrow> exn + (string \<times> string list)" where
  "read_password [] = Inl EOFError"
| "read_password (password # inp) =
     (if \<not> truthy (Some password) then read_password inp else Inr (password, inp))"

definition initial_setup ::
  "lib \<Rightarrow> files \<Rightarrow> storage \<Rightarrow> string option \<Rightarrow> string list
     \<Rightarrow> exn + (files \<times> storage \<times> string list)"
where
  "initial_setup L fs s provided_password inp =
     (case (if truthy provided_password then Inr (the provided_password, inp)
            else read_password inp) of
        Inl e \<Rightarrow> Inl e
      | Inr (password, inp1) \<Rightarrow>
          (case inp1 of
             [] \<Rightarrow> Inl EOFError
           | confirm # inp2 \<Rightarrow>
               if password \<noteq> confirm then Inr (fs, s\<lparr>config := DEFAULT_CONFIG\<rparr>, inp2)
               else
                 (let s1 = setup_encryption_key L s password;
                      fs1 = fst (save_key_hash L fs s1)
                  in Inr (fs1, s1\<lparr>last_password := Some password\<rparr>, inp2))))"

text \<open>\<open>SecureStorage.__init__\<close>.\<close>

definition init ::
  "lib \<Rightarrow> files \<Rightarrow> string option \<Rightarrow> string list \<Rightarrow> exn + (files \<times> storage \<times> string list)"
where
  "init L fs password inp =
     (let s = \<lparr>master_password = password, encryption_key = None,
                config = DEFAULT_CONFIG, last_password = None\<rparr>
      in if is_initialized fs then
           (if truthy password
            then Inr (fs, setup_encryption_key L s (the password), inp)
            else (case try_load_key L fs s inp of
                    Inl e \<Rightarrow> Inl e
                  | Inr (s1, ok, inp1) \<Rightarrow> Inr (fs, s1, inp1)))
         else initial_setup L fs s password inp)"

text \<open>
  \<open>AES.new(key, AES.MODE_GCM, nonce=nonce)\<close> raises \<open>ValueError\<close> for a key that
  is not 16, 24 or 32 bytes long and for an empty nonce. \<open>encrypt\<close> and \<open>decrypt\<close>
  both XOR the data with the key stream; the code never calls \<open>digest\<close> or
  \<open>verify\<close>, so no authentication tag is written or checked.
\<close>

definition aes_new_ok :: "bytes \<Rightarrow> bytes \<Rightarrow> bool" where
  "aes_new_ok key nonce = ((length key = 16 \<or> length key = 24 \<or> length key = 32) \<and> nonce \<noteq> [])"

definition gcm_crypt :: "lib \<Rightarrow> bytes \<Rightarrow> bytes \<Rightarrow> bytes \<Rightarrow> bytes" where
  "gcm_crypt L key nonce data =
     map (\<lambda>(b, i). b XOR gcm_keystream L key nonce i) (zip data [0..<length data])"

text \<open>
  \<open>load\<close> returns the default configuration without a message when there is no key
  or no file (\<open>Default\<close>), prints the exception and returns the default configuration
  when anything in the \<open>try\<close> block raises (\<open>Failed\<close>), and otherwise stores and
  returns the parsed configuration (\<open>Loaded\<close>).
\<close>

datatype load_result = Default | Failed string | Loaded config

fun returned_config :: "load_result \<Rightarrow> config" where
  "returned_config (Loaded c) = c"
| "returned_config _ = DEFAULT_CONFIG"

definition load :: "lib \<Rightarrow> files \<Rightarrow> storage \<Rightarrow> storage \<times> load_result" where
  "load L fs s =
     (if \<not> truthy (encryption_key s) \<or> CONFIG_FILE fs = None then (s, Default)
      else
        (let encrypted_data = the (CONFIG_FILE fs);
             nonce = take 16 encrypted_data;
             ciphertext = drop 16 encrypted_data;
             key = the (encryption_key s)
         in if \<not> aes_new_ok key nonce then (s, Failed ''ValueError'')
            else
              (case bytes_decode L (gcm_crypt L key nonce ciphertext) of
                 None \<Rightarrow> (s, Failed ''UnicodeDecodeError'')
               | Some config_json \<Rightarrow>
                   (case json_loads L config_json of
                      None \<Rightarrow> (s, Failed ''JSONDecodeError'')
                    | Some c \<Rightarrow> (s\<lparr>config := c\<rparr>, Loaded c)))))"

text \<open>
  \<open>save\<close>. The nonce is the 16 random bytes \<open>AES.new\<close> draws when none is given;
  it is an argument of the model.
\<close>

definition save :: "lib \<Rightarrow> bytes \<Rightarrow> files \<Rightarrow> storage \<Rightarrow> files \<times> bool" where
  "save L nonce fs s =
     (if \<not> truthy (encryption_key s) then (fs, False)
      else
        (let data = str_encode L (json_dumps L (config s));
             key = the (encryption_key s)
         in if \<not> aes_new_ok key nonce then (fs, False)
            else (fs\<lparr>CONFIG_FILE := Some (nonce @ gcm_crypt L key nonce data)\<rparr>, True)))"

definition lookup :: "config \<Rightarrow> string \<Rightarrow> string \<Rightarrow> string option" where
  "lookup c service key =
     (case map_of c service of None \<Rightarrow> None | Some service_config \<Rightarrow> map_of service_config key)"

definition ensure_loaded :: "lib \<Rightarrow> files \<Rightarrow> storage \<Rightarrow> storage" where
  "ensure_loaded L fs s = (if config s = [] then fst (load L fs s) else s)"

definition get :: "lib \<Rightarrow> files \<Rightarrow> storage \<Rightarrow> string \<Rightarrow> string \<Rightarrow> storage \<times> string option" where
  "get L fs s service key =
     (let s1 = ensure_loaded L fs s in (s1, lookup (config s1) service key))"


definition delete ::
  "lib \<Rightarrow> bytes \<Rightarrow> files \<Rightarrow> storage \<Rightarrow> string \<Rightarrow> string \<Rightarrow> files \<times> storage \<times> bool"
where
  "delete L nonce fs s service key =
     (let s1 = ensure_loaded L fs s in
      case map_of (config s1) service of
        None \<Rightarrow> (fs, s1, False)
      | Some section \<Rightarrow>
          if map_of section key = None then (fs, s1, False)
          else
            (let s2 = s1\<lparr>config := AList.update service (AList.delete key section) (config s1)\<rparr>;
                 (fs1, ok) = save L nonce fs s2
             in (fs1, s2, ok)))"

section \<open>A concrete instance of the library parameters\<close>

text \<open>
  To run the store on concrete inputs the library parameters are instantiated: a key
  derivation that returns 32 bytes, a hex digest, a key stream that depends on key,
  nonce and position, the ASCII codec, and JSON for objects of objects of strings
  without escape sequences, written with the separators of \<open>json.dumps\<close>.
\<close>

definition demo_pbkdf2 :: "string \<Rightarrow> bytes \<Rightarrow> bytes \<Rightarrow> nat \<Rightarrow> bytes" where
  "demo_pbkdf2 h password slt n = take 32 (password @ slt @ replicate 32 (of_nat (n mod 256)))"

definition demo_hexdigest :: "bytes \<Rightarrow> string" where
  "demo_hexdigest bs =
     concat (map (\<lambda>b. [''0123456789abcdef'' ! unat (drop_bit 4 b),
                         ''0123456789abcdef'' ! unat (b AND 15)]) bs)"

definition demo_keystream :: "bytes \<Rightarrow> bytes \<Rightarrow> nat \<Rightarrow> byte" where
  "demo_keystream key nonce i =
     (key ! (i mod length key)) + (nonce ! (i mod length nonce)) + of_nat i"

definition ascii_encode :: "string \<Rightarrow> bytes" where
  "ascii_encode s = map (\<lambda>c. of_nat (of_char c)) s"

definition ascii_decode :: "bytes \<Rightarrow> string option" where
  "ascii_decode bs =
     (if list_all (\<lambda>b. unat b < 128) bs then Some (map (\<lambda>b. char_of (unat b)) bs) else None)"

definition quote :: "string \<Rightarrow> string" where
  "quote s = CHR 0x22 # s @ [CHR 0x22]"

fun join :: "string \<Rightarrow> string list \<Rightarrow> string" where
  "join sep [] = []"
| "join sep [x] = x"
| "join sep (x # y # ys) = x @ sep @ join sep (y # ys)"

definition dumps_section :: "section_cfg \<Rightarrow> string" where
  "dumps_section d = ''{'' @ join '', '' (map (\<lambda>(k, v). quote k @ '': '' @ quote v) d) @ ''}''"

definition demo_dumps :: "config \<Rightarrow> string" where
  "demo_dumps c =
     ''{'' @ join '', '' (map (\<lambda>(s, d). quote s @ '': '' @ dumps_section d) c) @ ''}''"

datatype token = LBrace | RBrace | Colon | Comma | Str string

fun tokenize :: "string option \<Rightarrow> string \<Rightarrow> token list option" where
  "tokenize None [] = Some []"
| "tokenize (Some acc) [] = None"
| "tokenize None (c # cs) =
     (if c = CHR ''{'' then map_option (Cons LBrace) (tokenize None cs)
      else if c = CHR ''}'' then map_option (Cons RBrace) (tokenize None cs)
      else if c = CHR '':'' then map_option (Cons Colon) (tokenize None cs)
      else if c = CHR '','' then map_option (Cons Comma) (tokenize None cs)
      else if c = CHR '' '' then tokenize None cs
      else if c = CHR 0x22 then tokenize (Some []) cs
      else None)"
| "tokenize (Some acc) (c # cs) =
     (if c = CHR 0x22 then map_option (Cons (Str (rev acc))) (tokenize None cs)
      else if c = CHR 0x5C \<or> (of_char c :: nat) < 32 then None
      else tokenize (Some (c # acc)) cs)"

datatype mode = Entry | Items string section_cfg | After

fun parse :: "mode \<Rightarrow> config \<Rightarrow> token list \<Rightarrow> config option" where
  "parse Entry acc ts =
     (case ts of
        Str s # Colon # LBrace # RBrace # r \<Rightarrow> parse After (AList.update s [] acc) r
      | Str s # Colon # LBrace # r \<Rightarrow> parse (Items s []) acc r
      | _ \<Rightarrow> None)"
| "parse (Items s d) acc ts =
     (case ts of
        Str k # Colon # Str v # Comma # r \<Rightarrow> parse (Items s (AList.update k v d)) acc r
      | Str k # Colon # Str v # RBrace # r \<Rightarrow>
          parse After (AList.update s (AList.update k v d) acc) r
      | _ \<Rightarrow> None)"
| "parse After acc ts =
     (case ts of
        [RBrace] \<Rightarrow> Some acc
      | Comma # r \<Rightarrow> parse Entry acc r
      | _ \<Rightarrow> None)"

definition demo_loads :: "string \<Rightarrow> config option" where
  "demo_loads s =
     (case tokenize None s of
        None \<Rightarrow> None
      | Some [LBrace, RBrace] \<Rightarrow> Some []
      | Some (LBrace # ts) \<Rightarrow> parse Entry [] ts
      | Some _ \<Rightarrow> None)"

definition demo_lib :: lib where
  "demo_lib = \<lparr>pbkdf2_hmac = demo_pbkdf2, sha256_hexdigest = demo_hexdigest,
                gcm_keystream = demo_keystream, str_encode = ascii_encode,
                bytes_decode = ascii_decode, json_dumps = demo_dumps,
                json_loads = demo_loads\<rparr>"

definition demo_nonce :: bytes where
  "demo_nonce = map of_nat [0..<16]"

text \<open>
  The key derived from the master password \<open>abc123\<close>, and the files after a first
  run that set this password (typed again to confirm it) and stored the entry
  \<open>rail/id = user1\<close>: the nonce followed by the encrypted
  \<open>{"rail": {"id": "user1"}}\<close>, and the digest of the key.
\<close>

definition demo_key :: bytes where
  "demo_key =
     [97, 98, 99, 49, 50, 51, 115, 114, 116, 103, 111, 45, 115, 97, 108, 116] @ replicate 16 160"

definition demo_ciphertext :: bytes where
  "demo_ciphertext =
     [26, 70, 21, 86, 83, 81, 93, 186, 164, 2, 161, 42, 239, 89, 178, 178, 146, 199, 199,
      211, 202, 139, 158, 195, 189]"

definition demo_files :: files where
  "demo_files =
     \<lparr>CONFIG_FILE = Some (demo_nonce @ demo_ciphertext),
      KEY_FILE = Some ''616263313233737274676f2d73616c74a0a0a0a0a0a0a0a0a0a0a0a0a0a0a0a0''\<rparr>"

text \<open>A new instance on these files, as \<open>SecureStorage("abc123")\<close> leaves it.\<close>

definition demo_store :: storage where
  "demo_store =
     \<lparr>master_password = Some ''abc123'', encryption_key = Some demo_key,
      config = DEFAULT_CONFIG, last_password = None\<rparr>"

text \<open>The key derived from the password \<open>wrong\<close>.\<close>

definition demo_wrong_key :: bytes where
  "demo_wrong_key =
     [119, 114, 111, 110, 103, 115, 114, 116, 103, 111, 45, 115, 97, 108, 116] @ replicate 17 160"

section \<open>Theorems\<close>

subsection \<open>The seat predicate\<close>

lemma satisfies_rows:
  "satisfies t p =
     (if general t \<or> special t
      then (p = GENERAL_FIRST \<or> p = SPECIAL_FIRST \<or> (p = GENERAL_ONLY \<and> general t)
            \<or> (p = SPECIAL_ONLY \<and> special t))
      else waitingList t)"
  by (cases p) (auto simp: satisfies_def)

text \<open>
  C1. For every candidate and every seat-class preference the seat predicate of the
  code returns the value of the specification's decision table: with no seat in any
  class the answer is the waiting-list capacity; otherwise the two FIRST preferences
  are satisfied, GENERAL_ONLY is satisfied iff the general class has a seat and
  SPECIAL_ONLY iff the special class has one. This holds for the SRT branch and for
  the Korail branch (any rail type other than SRT).
\<close>

theorem is_seat_available_table:
  "is_seat_available (SRTTrain t) (SeatType p) ''SRT'' = Inr (satisfies t p)
   \<and> (rt \<noteq> ''SRT'' \<longrightarrow>
        is_seat_available (KTXTrain t) (ReserveOption p) rt = Inr (satisfies t p))
   \<and> (\<not> general t \<and> \<not> special t \<longrightarrow> satisfies t p = waitingList t)
   \<and> (general t \<or> special t \<longrightarrow>
        satisfies t GENERAL_FIRST \<and> satisfies t SPECIAL_FIRST
        \<and> satisfies t GENERAL_ONLY = general t
        \<and> satisfies t SPECIAL_ONLY = special t)"
  by (cases p)
     (auto simp: satisfies_def seat_available_def general_seat_available_def
        special_seat_available_def reserve_standby_available_def has_seat_def
        has_general_seat_def has_special_seat_def has_waiting_list_def)

theorem is_seat_available_table_witness:
  "is_seat_available (SRTTrain \<lparr>general = False, special = True, waitingList = False\<rparr>)
      (SeatType GENERAL_ONLY) ''SRT'' = Inr False
   \<and> is_seat_available (KTXTrain \<lparr>general = False, special = True, waitingList = False\<rparr>)
      (ReserveOption GENERAL_ONLY) ''KTX'' = Inr False
   \<and> satisfies \<lparr>general = False, special = True, waitingList = False\<rparr> SPECIAL_ONLY
   \<and> is_seat_available (KTXTrain \<lparr>general = False, special = False, waitingList = True\<rparr>)
      (ReserveOption GENERAL_ONLY) ''KTX'' = Inr True
   \<and> satisfies \<lparr>general = False, special = False, waitingList = True\<rparr> SPECIAL_ONLY"
  using is_seat_available_table
    [of "\<lparr>general = False, special = True, waitingList = False\<rparr>" GENERAL_ONLY "''KTX''"]
    is_seat_available_table
    [of "\<lparr>general = False, special = False, waitingList = True\<rparr>" GENERAL_ONLY "''KTX''"]
    is_seat_available_table
    [of "\<lparr>general = False, special = False, waitingList = True\<rparr>" SPECIAL_ONLY "''KTX''"]
  by (simp add: satisfies_def)

subsection \<open>The encrypted store: general facts\<close>

lemma length_gcm_crypt [simp]: "length (gcm_crypt L key nonce data) = length data"
  by (simp add: gcm_crypt_def)

lemma nth_gcm_crypt:
  "i < length data \<Longrightarrow> gcm_crypt L key nonce data ! i = data ! i XOR gcm_keystream L key nonce i"
  by (simp add: gcm_crypt_def)


lemma gcm_crypt_update:
  "i < length ct \<Longrightarrow>
   gcm_crypt L key nonce (ct[i := ct ! i XOR d])
     = (gcm_crypt L key nonce ct)[i := gcm_crypt L key nonce ct ! i XOR d]"
  by (rule nth_equalityI) (auto simp: nth_gcm_crypt nth_list_update xor.assoc xor.left_commute xor.commute)






lemma ensure_loaded_idem: "ensure_loaded L fs (ensure_loaded L fs s) = ensure_loaded L fs s"
  by (auto simp: ensure_loaded_def load_def Let_def split: option.splits)

lemma read_password_nonempty:
  "read_password inp = Inr (password, inp1) \<Longrightarrow> password \<noteq> []"
  by (induction inp) (auto split: if_splits)

lemma init_files:
  assumes "init L fs pw inp = Inr (fs1, s1, inp1)"
  shows "fs1 = fs
    \<or> (\<exists>p. p \<noteq> [] \<and> fs1 = fs\<lparr>KEY_FILE := Some (sha256_hexdigest L
                  (pbkdf2_hmac L ''sha256'' (str_encode L p) salt 100000))\<rparr>)"
proof (cases "is_initialized fs")
  case True
  with assms show ?thesis
    by (auto simp: init_def Let_def split: if_splits sum.splits)
next
  case False
  let ?s = "\<lparr>master_password = pw, encryption_key = None,
             config = DEFAULT_CONFIG, last_password = None\<rparr>"
  from False assms have i: "initial_setup L fs ?s pw inp = Inr (fs1, s1, inp1)"
    by (simp add: init_def)
  obtain password rest where
    r: "(if truthy pw then Inr (the pw, inp) else read_password inp) = Inr (password, rest)"
    using i by (auto simp: initial_setup_def split: sum.splits)
  then have ne: "password \<noteq> []"
    by (cases pw) (auto split: if_splits dest: read_password_nonempty)
  from i r ne show ?thesis
    by (auto simp: initial_setup_def Let_def save_key_hash_def setup_encryption_key_def
        derive_key_def split: list.splits if_splits)
qed

lemma ask_password_verified:
  "ask_password L fs n s inp = Inr (s1, True, inp1) \<Longrightarrow> verify_key L fs s1"
proof (induction L fs n s inp rule: ask_password.induct)
  case (1 L fs s inp)
  then show ?case by simp
next
  case (2 L fs n s)
  then show ?case by simp
next
  case (3 L fs n s password inp)
  then show ?case
    by (auto simp: Let_def verify_key_def setup_encryption_key_def split: if_splits option.splits)
qed


subsection \<open>The encrypted store on the concrete instance\<close>

lemma derive_demo_key: "derive_key demo_lib (Some ''abc123'') = Some demo_key"
  by (simp add: derive_key_def demo_lib_def demo_pbkdf2_def salt_def ascii_encode_def demo_key_def)

lemma demo_key_digest:
  "sha256_hexdigest demo_lib demo_key
     = ''616263313233737274676f2d73616c74a0a0a0a0a0a0a0a0a0a0a0a0a0a0a0a0''"
  by code_simp

lemma demo_key_ok: "truthy (Some demo_key)" "aes_new_ok demo_key demo_nonce" "length demo_key = 32" "length demo_nonce = 16"
  by code_simp+


lemma demo_first_run:
  "init demo_lib \<lparr>CONFIG_FILE = None, KEY_FILE = None\<rparr> (Some ''abc123'') [''abc123'']
     = Inr (demo_files\<lparr>CONFIG_FILE := None\<rparr>, demo_store\<lparr>last_password := Some ''abc123''\<rparr>, [])"
  using demo_key_ok
  by (simp add: init_def is_initialized_def initial_setup_def setup_encryption_key_def
      save_key_hash_def DEFAULT_CONFIG_def derive_demo_key demo_key_digest demo_store_def
      demo_files_def)


lemma demo_codec:
  "bytes_decode demo_lib (gcm_crypt demo_lib demo_key demo_nonce demo_ciphertext)
     = Some (json_dumps demo_lib [(''rail'', [(''id'', ''user1'')])])"
  "json_loads demo_lib (json_dumps demo_lib [(''rail'', [(''id'', ''user1'')])])
     = Some [(''rail'', [(''id'', ''user1'')])]"
  by code_simp+

lemma demo_load:
  "load demo_lib demo_files demo_store
     = (demo_store\<lparr>config := [(''rail'', [(''id'', ''user1'')])]\<rparr>,
        Loaded [(''rail'', [(''id'', ''user1'')])])"
  using demo_key_ok
  by (simp add: load_def demo_files_def demo_store_def demo_codec)

lemma derive_wrong_key: "derive_key demo_lib (Some ''wrong'') = Some demo_wrong_key"
  by (simp add: derive_key_def demo_lib_def demo_pbkdf2_def salt_def ascii_encode_def
      demo_wrong_key_def)

lemma demo_wrong_decrypt:
  "bytes_decode demo_lib (gcm_crypt demo_lib demo_wrong_key demo_nonce demo_ciphertext) = None"
  "length demo_wrong_key = 32"
  by code_simp+

lemma demo_wrong_digest:
  "sha256_hexdigest demo_lib demo_wrong_key
   \<noteq> ''616263313233737274676f2d73616c74a0a0a0a0a0a0a0a0a0a0a0a0a0a0a0a0''"
  "demo_wrong_key \<noteq> []"
  by code_simp+

lemma demo_digest_strip:
  "strip ''616263313233737274676f2d73616c74a0a0a0a0a0a0a0a0a0a0a0a0a0a0a0a0''
     = ''616263313233737274676f2d73616c74a0a0a0a0a0a0a0a0a0a0a0a0a0a0a0a0''"
  by code_simp

lemma demo_tampered:
  "bytes_decode demo_lib
     ((gcm_crypt demo_lib demo_key demo_nonce demo_ciphertext)
        [21 := gcm_crypt demo_lib demo_key demo_nonce demo_ciphertext ! 21 XOR 1])
     = Some (json_dumps demo_lib [(''rail'', [(''id'', ''user0'')])])"
  "json_loads demo_lib (json_dumps demo_lib [(''rail'', [(''id'', ''user0'')])])
     = Some [(''rail'', [(''id'', ''user0'')])]"
  "length demo_ciphertext = 25"
  by code_simp+

lemma demo_deleted_length:
  "length (str_encode demo_lib (json_dumps demo_lib [(''rail'', [])])) = 12"
  by code_simp

lemma demo_delete_present:
  "delete demo_lib demo_nonce demo_files
      (demo_store\<lparr>config := [(''rail'', [(''id'', ''user1'')])]\<rparr>) ''rail'' ''id''
     = (demo_files\<lparr>CONFIG_FILE := Some (demo_nonce @ gcm_crypt demo_lib demo_key demo_nonce
            (str_encode demo_lib (json_dumps demo_lib [(''rail'', [])])))\<rparr>,
        demo_store\<lparr>config := [(''rail'', [])]\<rparr>, True)"
  using demo_key_ok
  by (simp add: delete_def ensure_loaded_def save_def demo_store_def)

subsection \<open>The encrypted store: the claims\<close>

text \<open>
  C8. On first use (the store is not initialized) with a non-empty secret, confirmed by
  typing it again, the key is \<open>pbkdf2_hmac\<close> with SHA-256 over the secret, the
  fixed salt \<open>srtgo-salt\<close> and 100000 iterations, and the only change to the files
  is that the key file holds the SHA-256 hex digest of that key: neither the key nor
  the secret is written, and the configuration file is untouched. Both ways of giving
  the secret are covered: as the constructor's argument and typed at the prompt. (The
  key derivation returns a non-empty byte string; the real one returns 32 bytes.)
  Whatever is passed and typed, a constructor call that returns leaves the files as
  they were or differing in the key file alone, which then holds such a digest for
  some non-empty secret.
\<close>

theorem initial_setup_fingerprint:
  assumes "\<not> is_initialized fs" and "password \<noteq> []"
    and "pbkdf2_hmac L ''sha256'' (str_encode L password) salt 100000 \<noteq> []"
  shows "init L fs (Some password) (password # inp)
           = Inr (fs\<lparr>KEY_FILE := Some (sha256_hexdigest L
                     (pbkdf2_hmac L ''sha256'' (str_encode L password) salt 100000))\<rparr>,
                  \<lparr>master_password = Some password,
                   encryption_key = Some (pbkdf2_hmac L ''sha256'' (str_encode L password) salt 100000),
                   config = DEFAULT_CONFIG, last_password = Some password\<rparr>, inp)
         \<and> init L fs None (password # password # inp)
           = Inr (fs\<lparr>KEY_FILE := Some (sha256_hexdigest L
                     (pbkdf2_hmac L ''sha256'' (str_encode L password) salt 100000))\<rparr>,
                  \<lparr>master_password = None,
                   encryption_key = Some (pbkdf2_hmac L ''sha256'' (str_encode L password) salt 100000),
                   config = DEFAULT_CONFIG, last_password = Some password\<rparr>, inp)
         \<and> (\<forall>pw typed fs1 s1 rest.
               init L fs pw typed = Inr (fs1, s1, rest) \<longrightarrow>
               fs1 = fs
               \<or> (\<exists>p. p \<noteq> [] \<and> fs1 = fs\<lparr>KEY_FILE := Some (sha256_hexdigest L
                          (pbkdf2_hmac L ''sha256'' (str_encode L p) salt 100000))\<rparr>))"
proof (intro conjI allI impI)
  show "init L fs (Some password) (password # inp)
           = Inr (fs\<lparr>KEY_FILE := Some (sha256_hexdigest L
                     (pbkdf2_hmac L ''sha256'' (str_encode L password) salt 100000))\<rparr>,
                  \<lparr>master_password = Some password,
                   encryption_key = Some (pbkdf2_hmac L ''sha256'' (str_encode L password) salt 100000),
                   config = DEFAULT_CONFIG, last_password = Some password\<rparr>, inp)"
    using assms
    by (simp add: init_def initial_setup_def setup_encryption_key_def derive_key_def
        save_key_hash_def)
next
  show "init L fs None (password # password # inp)
           = Inr (fs\<lparr>KEY_FILE := Some (sha256_hexdigest L
                     (pbkdf2_hmac L ''sha256'' (str_encode L password) salt 100000))\<rparr>,
                  \<lparr>master_password = None,
                   encryption_key = Some (pbkdf2_hmac L ''sha256'' (str_encode L password) salt 100000),
                   config = DEFAULT_CONFIG, last_password = Some password\<rparr>, inp)"
    using assms
    by (simp add: init_def initial_setup_def setup_encryption_key_def derive_key_def
        save_key_hash_def)
next
  fix pw typed fs1 s1 rest
  assume "init L fs pw typed = Inr (fs1, s1, rest)"
  then show "fs1 = fs
      \<or> (\<exists>p. p \<noteq> [] \<and> fs1 = fs\<lparr>KEY_FILE := Some (sha256_hexdigest L
                 (pbkdf2_hmac L ''sha256'' (str_encode L p) salt 100000))\<rparr>)"
    by (rule init_files)
qed

theorem initial_setup_fingerprint_witness:
  "init demo_lib \<lparr>CONFIG_FILE = None, KEY_FILE = None\<rparr> (Some ''abc123'') [''abc123'']
     = Inr (\<lparr>CONFIG_FILE = None,
             KEY_FILE = Some ''616263313233737274676f2d73616c74a0a0a0a0a0a0a0a0a0a0a0a0a0a0a0a0''\<rparr>,
            \<lparr>master_password = Some ''abc123'', encryption_key = Some demo_key,
             config = DEFAULT_CONFIG, last_password = Some ''abc123''\<rparr>, [])
   \<and> init demo_lib \<lparr>CONFIG_FILE = None, KEY_FILE = None\<rparr> None [''abc123'', ''abc123'']
     = Inr (\<lparr>CONFIG_FILE = None,
             KEY_FILE = Some ''616263313233737274676f2d73616c74a0a0a0a0a0a0a0a0a0a0a0a0a0a0a0a0''\<rparr>,
            \<lparr>master_password = None, encryption_key = Some demo_key,
             config = DEFAULT_CONFIG, last_password = Some ''abc123''\<rparr>, [])"
proof -
  have k: "pbkdf2_hmac demo_lib ''sha256'' (str_encode demo_lib ''abc123'') salt 100000 = demo_key"
    using derive_demo_key by (simp add: derive_key_def)
  have "\<not> is_initialized \<lparr>CONFIG_FILE = None, KEY_FILE = None\<rparr>"
    by (simp add: is_initialized_def)
  moreover have "''abc123'' \<noteq> []" by simp
  moreover have "pbkdf2_hmac demo_lib ''sha256'' (str_encode demo_lib ''abc123'') salt 100000 \<noteq> []"
    using demo_key_ok(1) by (simp add: k)
  ultimately show ?thesis
    using initial_setup_fingerprint
      [of "\<lparr>CONFIG_FILE = None, KEY_FILE = None\<rparr>" "''abc123''" demo_lib "[]"]
    by (simp add: k demo_key_digest)
qed

text \<open>
  C3. The claim is that opening an initialized store with a secret that does not match
  the stored fingerprint fails before any decryption. The constructor does not do that:
  given a non-empty password for an initialized store it returns an instance whose key
  is derived from that password, whatever the key file holds; \<open>_verify_key\<close> is
  called only on the path that prompts for the password.
\<close>

theorem init_skips_verification:
  assumes "is_initialized fs" and "password \<noteq> []"
  shows "init L fs (Some password) inp
           = Inr (fs, \<lparr>master_password = Some password,
                       encryption_key = derive_key L (Some password),
                       config = DEFAULT_CONFIG, last_password = None\<rparr>, inp)"
  using assms by (simp add: init_def setup_encryption_key_def)

theorem init_skips_verification_witness:
  "init demo_lib demo_files (Some ''wrong'') []
     = Inr (demo_files, \<lparr>master_password = Some ''wrong'',
                         encryption_key = derive_key demo_lib (Some ''wrong''),
                         config = DEFAULT_CONFIG, last_password = None\<rparr>, [])
   \<and> \<not> verify_key demo_lib demo_files
          \<lparr>master_password = Some ''wrong'', encryption_key = derive_key demo_lib (Some ''wrong''),
           config = DEFAULT_CONFIG, last_password = None\<rparr>
   \<and> snd (load demo_lib demo_files
          \<lparr>master_password = Some ''wrong'', encryption_key = derive_key demo_lib (Some ''wrong''),
           config = DEFAULT_CONFIG, last_password = None\<rparr>) = Failed ''UnicodeDecodeError''"
proof -
  have "is_initialized demo_files" by (simp add: is_initialized_def demo_files_def)
  moreover have "''wrong'' \<noteq> []" by simp
  ultimately show ?thesis
    using init_skips_verification [of demo_files "''wrong''" demo_lib "[]"]
      demo_wrong_digest demo_key_ok
    by (simp add: verify_key_def load_def derive_wrong_key demo_files_def demo_digest_strip
        aes_new_ok_def demo_wrong_decrypt)
qed

text \<open>
  C2. The claim is that a flipped ciphertext byte makes the load fail. No authentication
  tag is written or checked, so \<open>load\<close> on a file whose \<open>i\<close>-th ciphertext byte
  is XORed with \<open>d\<close> behaves exactly as on a file holding the plaintext with the same
  byte XORed with \<open>d\<close>: the outcome is decided by the text codec and the JSON parser
  alone, and when they accept, the altered configuration is loaded.
\<close>

theorem load_tampered:
  assumes "truthy (encryption_key s)"
    and "aes_new_ok (the (encryption_key s)) nonce" and "length nonce = 16"
    and "i < length ct"
  shows "load L (fs\<lparr>CONFIG_FILE := Some (nonce @ (ct[i := ct ! i XOR d]))\<rparr>) s
           = (let plain = gcm_crypt L (the (encryption_key s)) nonce ct in
              case bytes_decode L (plain[i := plain ! i XOR d]) of
                None \<Rightarrow> (s, Failed ''UnicodeDecodeError'')
              | Some config_json \<Rightarrow>
                  (case json_loads L config_json of
                     None \<Rightarrow> (s, Failed ''JSONDecodeError'')
                   | Some c \<Rightarrow> (s\<lparr>config := c\<rparr>, Loaded c)))"
  using assms by (simp add: load_def gcm_crypt_update Let_def)

theorem load_tampered_witness:
  "load demo_lib
     (demo_files\<lparr>CONFIG_FILE := Some (demo_nonce @ (demo_ciphertext[21 := demo_ciphertext ! 21 XOR 1]))\<rparr>)
     demo_store
   = (demo_store\<lparr>config := [(''rail'', [(''id'', ''user0'')])]\<rparr>,
      Loaded [(''rail'', [(''id'', ''user0'')])])"
proof -
  have "truthy (encryption_key demo_store)"
    and "aes_new_ok (the (encryption_key demo_store)) demo_nonce"
    and "length demo_nonce = 16" and "21 < length demo_ciphertext"
    using demo_key_ok demo_tampered(3) by (simp_all add: demo_store_def)
  from load_tampered [OF this, where L = demo_lib and fs = demo_files and d = 1] show ?thesis
    by (simp add: demo_store_def demo_tampered)
qed



text \<open>
  C10, counterexample. A new instance on the example files has an empty in-memory
  configuration. Deleting the absent pair \<open>card/number\<close> returns \<open>False\<close> and
  leaves the files alone, but the in-memory configuration is no longer the same: the
  call first loads the file into it.
\<close>

theorem delete_absent_changes_snapshot:
  "delete demo_lib demo_nonce demo_files demo_store ''card'' ''number''
     = (demo_files, demo_store\<lparr>config := [(''rail'', [(''id'', ''user1'')])]\<rparr>, False)
   \<and> lookup (config demo_store) ''card'' ''number'' = None
   \<and> config demo_store = []
   \<and> config (demo_store\<lparr>config := [(''rail'', [(''id'', ''user1'')])]\<rparr>) \<noteq> config demo_store"
  by (simp add: delete_def ensure_loaded_def demo_load lookup_def)
     (simp add: demo_store_def DEFAULT_CONFIG_def)

text \<open>
  C10, amended. \<open>delete\<close> first loads the file when the in-memory configuration is
  empty. When the pair is then absent, the call returns \<open>False\<close>, the files are
  unchanged and the instance is the one after that load: unchanged when its
  configuration was not empty, and in every case answering every \<open>get\<close> as before.
  The files change only when the pair was present, and then it is gone from the
  in-memory configuration.
\<close>

theorem delete_absent_frame:
  "(lookup (config (ensure_loaded L fs s)) service key = None \<longrightarrow>
      delete L nonce fs s service key = (fs, ensure_loaded L fs s, False)
      \<and> (config s \<noteq> [] \<longrightarrow> ensure_loaded L fs s = s)
      \<and> snd (get L fs (ensure_loaded L fs s) service' key') = snd (get L fs s service' key'))
   \<and> (fst (delete L nonce fs s service key) \<noteq> fs \<longrightarrow>
      lookup (config (ensure_loaded L fs s)) service key \<noteq> None
      \<and> lookup (config (fst (snd (delete L nonce fs s service key)))) service key = None)"
  by (auto simp: delete_def Let_def lookup_def get_def ensure_loaded_idem update_conv' delete_conv'
      split: option.splits prod.splits)
     (simp_all add: ensure_loaded_def)

theorem delete_absent_frame_witness:
  "delete demo_lib demo_nonce demo_files
      (demo_store\<lparr>config := [(''rail'', [(''id'', ''user1'')])]\<rparr>) ''card'' ''number''
     = (demo_files, demo_store\<lparr>config := [(''rail'', [(''id'', ''user1'')])]\<rparr>, False)
   \<and> fst (delete demo_lib demo_nonce demo_files
           (demo_store\<lparr>config := [(''rail'', [(''id'', ''user1'')])]\<rparr>) ''rail'' ''id'')
       \<noteq> demo_files
   \<and> lookup (config (fst (snd (delete demo_lib demo_nonce demo_files
           (demo_store\<lparr>config := [(''rail'', [(''id'', ''user1'')])]\<rparr>) ''rail'' ''id'')))) ''rail'' ''id''
       = None"
proof -
  let ?s = "demo_store\<lparr>config := [(''rail'', [(''id'', ''user1'')])]\<rparr>"
  have e: "ensure_loaded demo_lib demo_files ?s = ?s"
    by (simp add: ensure_loaded_def)
  have a: "lookup (config (ensure_loaded demo_lib demo_files ?s)) ''card'' ''number'' = None"
    by (simp add: e lookup_def)
  have "CONFIG_FILE (fst (delete demo_lib demo_nonce demo_files ?s ''rail'' ''id''))
          \<noteq> CONFIG_FILE demo_files"
  proof
    assume "CONFIG_FILE (fst (delete demo_lib demo_nonce demo_files ?s ''rail'' ''id''))
          = CONFIG_FILE demo_files"
    then have "length (demo_nonce @ gcm_crypt demo_lib demo_key demo_nonce
            (str_encode demo_lib (json_dumps demo_lib [(''rail'', [])])))
          = length (demo_nonce @ demo_ciphertext)"
      unfolding demo_delete_present by (simp add: demo_files_def)
    then show False
      by (simp add: demo_deleted_length demo_tampered(3))
  qed
  then have b: "fst (delete demo_lib demo_nonce demo_files ?s ''rail'' ''id'') \<noteq> demo_files"
    by auto
  show ?thesis
    using delete_absent_frame [of demo_lib demo_files ?s "''card''" "''number''" demo_nonce]
      delete_absent_frame [of demo_lib demo_files ?s "''rail''" "''id''" demo_nonce] a b e
    by simp
qed

subsection \<open>The reservation run: general facts\<close>

lemmas run_defs = demo_run_def seat_free_def sold_out_def quiet_def network_error_def
  unknown_error_def attempt_def reserve_train_def handle_error_def ask_to_continue_def
  relogin_def seat_available_def reserve_standby_available_def general_seat_available_def
  special_seat_available_def





lemma relogin_cases:
  "relogin c = ([Login], Continue) \<or> (\<exists>e. relogin c = ([Login], Crash e))"
  by (auto simp: relogin_def split: sum.splits)


lemma add_passengers_total:
  assumes "\<forall>(k, n) \<in> set xs. 0 \<le> entered n"
  shows "snd (add_passengers xs (ps, t)) = t + (\<Sum>(k, n) \<leftarrow> xs. entered n)"
  using assms
proof (induction xs "(ps, t)" arbitrary: ps t rule: add_passengers.induct)
  case 1
  then show ?case by simp
next
  case (2 k rest)
  then show ?case by (simp add: entered_def)
next
  case (3 k n rest passengers total_count)
  then show ?case by (auto simp: entered_def)
qed

lemma count_passengers_total:
  assumes "counts_from_menu i"
  shows "snd (count_passengers i) = total_entered i"
  using assms
  by (simp add: count_passengers_def counts_from_menu_def total_entered_def add_passengers_total)

subsection \<open>The reservation run: the claims\<close>

text \<open>
  C9. With the passenger counts the menus offer (none negative), a total of 0 or of 10
  or more ends \<open>reserve\<close> before any search or reservation call: the run has only
  logged in and saved the answers, and it returns (or the login itself had raised).
  Conversely a run that issues a search or a reservation call has a total between 1
  and 9.
\<close>

theorem passenger_count_gate:
  "(info s = Some i \<and> counts_from_menu i \<and> (total_entered i = 0 \<or> 10 \<le> total_entered i) \<longrightarrow>
      set (fst (reserve s)) \<subseteq> {Login, SaveDefaults}
      \<and> (snd (reserve s) = Aborted \<or> (\<exists>e. first_login s = Inl e \<and> snd (reserve s) = Crashed e)))
   \<and> (info s = Some i \<and> counts_from_menu i
        \<and> (Search \<in> set (fst (reserve s)) \<or> (\<exists>n. Reserve n \<in> set (fst (reserve s)))) \<longrightarrow>
      1 \<le> total_entered i \<and> total_entered i \<le> 9)"
proof -
  have a: "set (fst (reserve s)) \<subseteq> {Login, SaveDefaults}
      \<and> (snd (reserve s) = Aborted \<or> (\<exists>e. first_login s = Inl e \<and> snd (reserve s) = Crashed e))"
    if "info s = Some i" "counts_from_menu i" "total_entered i = 0 \<or> 10 \<le> total_entered i"
    using that count_passengers_total [of i]
    by (auto simp: reserve_def split: sum.splits)
  have b: "1 \<le> total_entered i \<and> total_entered i \<le> 9"
    if "info s = Some i" "counts_from_menu i"
      "Search \<in> set (fst (reserve s)) \<or> (\<exists>n. Reserve n \<in> set (fst (reserve s)))"
  proof (rule ccontr)
    assume "\<not> (1 \<le> total_entered i \<and> total_entered i \<le> 9)"
    then have "total_entered i = 0 \<or> 10 \<le> total_entered i"
      using that(2) by (auto simp: counts_from_menu_def total_entered_def)
    from a [OF that(1,2) this] that(3) show False by auto
  qed
  show ?thesis using a b by blast
qed

theorem passenger_count_gate_witness:
  "reserve (demo_session\<lparr>info := Some (demo_answers\<lparr>adult := 0\<rparr>)\<rparr>) = ([Login, SaveDefaults], Aborted)
   \<and> reserve (demo_session\<lparr>info := Some (demo_answers\<lparr>adult := 9, child := Some 1\<rparr>)\<rparr>)
       = ([Login, SaveDefaults], Aborted)
   \<and> reserve demo_session
       = ([Login, SaveDefaults, Search, Search, Sleep, Search, Reserve 0, Committed 0, SendTicket],
          Success)
   \<and> total_entered demo_answers = 1"
  using passenger_count_gate [of "demo_session\<lparr>info := Some (demo_answers\<lparr>adult := 0\<rparr>)\<rparr>"
      "demo_answers\<lparr>adult := 0\<rparr>"]
    passenger_count_gate [of "demo_session\<lparr>info := Some (demo_answers\<lparr>adult := 9, child := Some 1\<rparr>)\<rparr>"
      "demo_answers\<lparr>adult := 9, child := Some 1\<rparr>"]
    passenger_count_gate [of demo_session demo_answers]
  by (simp add: reserve_def demo_session_def demo_answers_def count_passengers_def run_defs
      total_entered_def entered_def)

text \<open>
  C5. The claim is that the run ends with the first successful reservation and issues
  no further search. In \<open>_reserve\<close> the Telegram send follows the reservation inside
  the loop's \<open>try\<close> block: when the send raises, the general handler reports the
  error, the user confirms (the default answer), and the loop searches again and
  commits a second reservation.
\<close>

theorem second_reservation_after_send_failure:
  "poll demo_run
     [quiet\<lparr>on_search := Inr [seat_free], on_send := Some network_error\<rparr>,
      quiet\<lparr>on_search := Inr [seat_free]\<rparr>]
   = ([Search, Reserve 0, Committed 0, SendTicket,
       ShowError network_error, SendError network_error, Confirm True, Login,
       Search, Reserve 0, Committed 0, SendTicket], Success)"
  by (simp add: run_defs)

text \<open>In that run two reservations are committed, and a search follows the first.\<close>

theorem second_reservation_commits_twice:
  "length (filter (\<lambda>e. e = Committed 0)
      (fst (poll demo_run
         [quiet\<lparr>on_search := Inr [seat_free], on_send := Some network_error\<rparr>,
          quiet\<lparr>on_search := Inr [seat_free]\<rparr>]))) = 2
   \<and> dropWhile (\<lambda>e. e \<noteq> Committed 0)
      (fst (poll demo_run
         [quiet\<lparr>on_search := Inr [seat_free], on_send := Some network_error\<rparr>,
          quiet\<lparr>on_search := Inr [seat_free]\<rparr>])) ! 6 = Search"
  using second_reservation_after_send_failure by (simp add: network_error_def)







end
